theory Spec2Isabelle
  imports Main "HOL-Library.Char_ord" "HOL-Library.List_Lexorder"
begin

section \<open>Python strings\<close>

text \<open>
  A Python \<^verbatim>\<open>str\<close> is modelled as a \<^typ>\<open>string\<close>: the list of its code
  points, each below 256.  The two character classes used by \<^verbatim>\<open>convert.py\<close> are
  those of CPython on that range: \<^verbatim>\<open>\s\<close> and \<^verbatim>\<open>str.strip()\<close> share one
  whitespace test, and \<^verbatim>\<open>\w\<close> is \<^verbatim>\<open>str.isalnum()\<close> or the underscore.
\<close>

definition is_space :: "char \<Rightarrow> bool" where
  "is_space c = (of_char c \<in> set [9, 10, 11, 12, 13, 28, 29, 30, 31, 32, 133, 160 :: nat])"

definition is_alnum :: "char \<Rightarrow> bool" where
  "is_alnum c =
     (let n = of_char c :: nat in
        (48 \<le> n \<and> n \<le> 57) \<or> (65 \<le> n \<and> n \<le> 90) \<or> (97 \<le> n \<and> n \<le> 122) \<or>
        n \<in> set [170, 178, 179, 181, 185, 186, 188, 189, 190] \<or>
        (192 \<le> n \<and> n \<le> 214) \<or> (216 \<le> n \<and> n \<le> 246) \<or> (248 \<le> n \<and> n \<le> 255))"

definition is_word :: "char \<Rightarrow> bool" where
  "is_word c = (is_alnum c \<or> c = CHR ''_'')"

text \<open>\<^verbatim>\<open>s.strip()\<close>: leading and trailing whitespace removed.\<close>

definition strip :: "string \<Rightarrow> string" where
  "strip s = rev (dropWhile is_space (rev (dropWhile is_space s)))"

text \<open>\<^verbatim>\<open>s.split(',')\<close>: the pieces between the separators; never the empty list.\<close>

fun split_on :: "char \<Rightarrow> string \<Rightarrow> string list" where
  "split_on sep [] = [[]]"
| "split_on sep (c # cs) =
     (if c = sep then [] # split_on sep cs
      else (case split_on sep cs of
              [] \<Rightarrow> [[c]]
            | w # ws \<Rightarrow> (c # w) # ws))"

text \<open>\<^verbatim>\<open>str(n)\<close> of a natural number, and the format \<^verbatim>\<open>f"{i:03d}"\<close>: the decimal
  digits, filled with zeros on the left up to a width of three.\<close>

definition digit_char :: "nat \<Rightarrow> char" where
  "digit_char d = ''0123456789'' ! d"

fun str_nat :: "nat \<Rightarrow> string" where
  "str_nat n = (if n < 10 then [digit_char n] else str_nat (n div 10) @ [digit_char (n mod 10)])"

declare str_nat.simps [simp del]

definition format_03d :: "nat \<Rightarrow> string" where
  "format_03d i = replicate (3 - length (str_nat i)) CHR ''0'' @ str_nat i"

section \<open>Name sanitization\<close>

text \<open>
  Lines 204--205 of \<^verbatim>\<open>create_dji_mission_kml\<close> and lines 295--296 of
  \<^verbatim>\<open>process_all_points\<close> are the same two substitutions:
  \<^verbatim>\<open>re.sub(r'[^\w\-_\s]', '_', s)\<close>, which rewrites single characters, and
  \<^verbatim>\<open>re.sub(r'\s+', '_', t.strip())\<close>, which rewrites each leftmost longest run of
  whitespace.
\<close>

definition sub_disallowed :: "string \<Rightarrow> string" where
  "sub_disallowed s =
     map (\<lambda>c. if is_word c \<or> c = CHR ''-'' \<or> c = CHR ''_'' \<or> is_space c then c else CHR ''_'') s"

function sub_spaces :: "string \<Rightarrow> string" where
  "sub_spaces [] = []"
| "sub_spaces (c # cs) =
     (if is_space c then CHR ''_'' # sub_spaces (dropWhile is_space cs)
      else c # sub_spaces cs)"
  by pat_completeness auto
termination
  by (relation "measure length") (auto simp: length_dropWhile_le less_Suc_eq_le)

definition clean_name :: "string \<Rightarrow> string" where
  "clean_name s = sub_spaces (strip (sub_disallowed s))"

subsection \<open>The rule as the specification words it\<close>

text \<open>
  The specification's wording of the same rule, step by step: replace each character that is
  not alphanumeric, underscore, hyphen or whitespace; trim whitespace at both ends; turn
  every run of whitespace into one underscore.  The run is followed with a flag that says
  whether the previous character was whitespace.
\<close>

definition spec_replace :: "string \<Rightarrow> string" where
  "spec_replace s =
     map (\<lambda>c. if \<not> is_alnum c \<and> c \<noteq> CHR ''_'' \<and> c \<noteq> CHR ''-'' \<and> \<not> is_space c
               then CHR ''_'' else c) s"

fun spec_trim_right :: "string \<Rightarrow> string" where
  "spec_trim_right [] = []"
| "spec_trim_right (c # cs) =
     (if list_all is_space (c # cs) then [] else c # spec_trim_right cs)"

definition spec_trim :: "string \<Rightarrow> string" where
  "spec_trim s = spec_trim_right (dropWhile is_space s)"

fun spec_collapse :: "bool \<Rightarrow> string \<Rightarrow> string" where
  "spec_collapse in_run [] = []"
| "spec_collapse in_run (c # cs) =
     (if is_space c
      then (if in_run then spec_collapse True cs else CHR ''_'' # spec_collapse True cs)
      else c # spec_collapse False cs)"

definition spec_sanitize :: "string \<Rightarrow> string" where
  "spec_sanitize s = spec_collapse False (spec_trim (spec_replace s))"

section \<open>Input documents\<close>

text \<open>
  What \<^verbatim>\<open>ET.parse(path).getroot()\<close> hands to the script: an element has a tag (a
  namespaced one is written \<^verbatim>\<open>{uri}local\<close>), a text that may be absent, and its
  children in document order.  A file that \<^verbatim>\<open>ET.parse\<close> cannot read or parse
  raises there; it is \<open>Unreadable\<close>.
\<close>

datatype element = Element (elem_tag: string) (elem_text: "string option") (elem_children: "element list")

datatype kml_file = Unreadable | Doc element

datatype error = ParseError | ValueError | FileNotFoundError

text \<open>The elements strictly below an element, in document order: what the path
  \<^verbatim>\<open>.//tag\<close> ranges over.\<close>

fun descendants :: "element \<Rightarrow> element list" where
  "descendants (Element t x cs) = concat (map (\<lambda>c. c # descendants c) cs)"

definition findall :: "string \<Rightarrow> element \<Rightarrow> element list" where
  "findall t e = filter (\<lambda>d. elem_tag d = t) (descendants e)"

definition find_elem :: "string \<Rightarrow> element \<Rightarrow> element option" where
  "find_elem t e = (case findall t e of [] \<Rightarrow> None | d # ds \<Rightarrow> Some d)"

definition kml_ns :: string where
  "kml_ns = ''{http://www.opengis.net/kml/2.2}''"

text \<open>The lookup the script repeats for coordinates, name and description: the
  namespaced tag first, the bare tag when that finds nothing.\<close>

definition find_kml :: "string \<Rightarrow> element \<Rightarrow> element option" where
  "find_kml t e =
     (case find_elem (kml_ns @ t) e of
        None \<Rightarrow> find_elem t e
      | Some d \<Rightarrow> Some d)"

definition find_placemarks :: "element \<Rightarrow> element list" where
  "find_placemarks root =
     (let placemarks = findall (kml_ns @ ''Placemark'') root
      in if placemarks = [] then findall ''Placemark'' root else placemarks)"

text \<open>\<^verbatim>\<open>e.text if e is not None and e.text else dflt\<close>.\<close>

definition text_or :: "string \<Rightarrow> element option \<Rightarrow> string" where
  "text_or dflt e =
     (case e of
        None \<Rightarrow> dflt
      | Some d \<Rightarrow> (case elem_text d of
                     None \<Rightarrow> dflt
                   | Some t \<Rightarrow> if t = [] then dflt else t))"

subsection \<open>Floating-point conversions\<close>

text \<open>
  The script reads numbers with \<^verbatim>\<open>float(s)\<close>, uses the constant \<^verbatim>\<open>0.0\<close> and
  prints numbers inside an f-string.  These three belong to Python, not to the script; the
  model takes them as a parameter over any carrier \<open>'f\<close>.  \<open>float_of_str s = None\<close> is
  the \<^verbatim>\<open>ValueError\<close> that \<^verbatim>\<open>float(s)\<close> raises.
\<close>

record 'f float_ops =
  float_of_str :: "string \<Rightarrow> 'f option"
  float_zero :: 'f
  str_of_float :: "'f \<Rightarrow> string"

type_synonym 'f point = "'f \<times> 'f \<times> 'f"

text \<open>Lines 56--63 and 96--102: the coordinate text is stripped and split at commas; with
  fewer than two pieces there is no point, otherwise longitude, latitude and, when a third
  piece exists, altitude are converted in this order.\<close>

definition parse_coords :: "'f float_ops \<Rightarrow> string \<Rightarrow> error + 'f point option" where
  "parse_coords F coords_text =
     (let coords = split_on CHR '','' (strip coords_text) in
      if length coords \<ge> 2 then
        (case float_of_str F (coords ! 0) of
           None \<Rightarrow> Inl ValueError
         | Some lon \<Rightarrow>
             (case float_of_str F (coords ! 1) of
                None \<Rightarrow> Inl ValueError
              | Some lat \<Rightarrow>
                  if length coords > 2 then
                    (case float_of_str F (coords ! 2) of
                       None \<Rightarrow> Inl ValueError
                     | Some alt \<Rightarrow> Inr (Some (lon, lat, alt)))
                  else Inr (Some (lon, lat, float_zero F))))
      else Inr None)"

text \<open>\<^verbatim>\<open>if coordinates_elem is not None and coordinates_elem.text:\<close> and the block
  under it.\<close>

definition coords_of :: "'f float_ops \<Rightarrow> element option \<Rightarrow> error + 'f point option" where
  "coords_of F coordinates_elem =
     (case coordinates_elem of
        None \<Rightarrow> Inr None
      | Some ce \<Rightarrow>
          (case elem_text ce of
             None \<Rightarrow> Inr None
           | Some t \<Rightarrow> if t = [] then Inr None else parse_coords F t))"

subsection \<open>Single-point mode\<close>

text \<open>The body of the \<^verbatim>\<open>try\<close> in \<^verbatim>\<open>parse_kml_point\<close>, and the function with its
  \<^verbatim>\<open>except Exception\<close>, which turns every exception into \<^verbatim>\<open>None\<close>.\<close>

definition parse_kml_point_try :: "'f float_ops \<Rightarrow> kml_file \<Rightarrow> error + 'f point option" where
  "parse_kml_point_try F file =
     (case file of
        Unreadable \<Rightarrow> Inl ParseError
      | Doc root \<Rightarrow> coords_of F (find_kml ''coordinates'' root))"

definition parse_kml_point :: "'f float_ops \<Rightarrow> kml_file \<Rightarrow> 'f point option" where
  "parse_kml_point F file =
     (case parse_kml_point_try F file of
        Inl e \<Rightarrow> None
      | Inr r \<Rightarrow> r)"

section \<open>Attribute extraction\<close>

subsection \<open>A backtracking matcher\<close>

text \<open>
  \<^verbatim>\<open>re.search\<close> tries the pattern at every start position from the left and, at each,
  explores the alternatives in the order of Python's matcher: a greedy star tries one more
  character before it tries the rest of the pattern, a lazy star tries the rest of the
  pattern first.  The patterns of the script only repeat character classes, so a pattern is
  a list of items.  A literal is compared ignoring ASCII case (\<^verbatim>\<open>re.IGNORECASE\<close>);
  the dot accepts every character (\<^verbatim>\<open>re.DOTALL\<close>).  The matcher returns the text of
  group 1 and the input left after the match.
\<close>

datatype char_class = AnyChar | NotChar char

datatype item = Lit char | GreedyStar char_class | LazyStar char_class | GroupOpen | GroupClose

fun in_class :: "char_class \<Rightarrow> char \<Rightarrow> bool" where
  "in_class AnyChar x = True"
| "in_class (NotChar c) x = (x \<noteq> c)"

definition fold_case :: "char \<Rightarrow> nat" where
  "fold_case c = (let n = of_char c :: nat in if 65 \<le> n \<and> n \<le> 90 then n + 32 else n)"

fun re_match :: "item list \<Rightarrow> string \<Rightarrow> bool \<Rightarrow> string \<Rightarrow> (string \<times> string) option" where
  "re_match [] s rec cap = Some (cap, s)"
| "re_match (GroupOpen # ps) s rec cap = re_match ps s True []"
| "re_match (GroupClose # ps) s rec cap = re_match ps s False cap"
| "re_match (Lit c # ps) [] rec cap = None"
| "re_match (Lit c # ps) (x # xs) rec cap =
     (if fold_case x = fold_case c
      then re_match ps xs rec (if rec then cap @ [x] else cap)
      else None)"
| "re_match (GreedyStar k # ps) [] rec cap = re_match ps [] rec cap"
| "re_match (GreedyStar k # ps) (x # xs) rec cap =
     (if in_class k x then
        (case re_match (GreedyStar k # ps) xs rec (if rec then cap @ [x] else cap) of
           Some r \<Rightarrow> Some r
         | None \<Rightarrow> re_match ps (x # xs) rec cap)
      else re_match ps (x # xs) rec cap)"
| "re_match (LazyStar k # ps) [] rec cap = re_match ps [] rec cap"
| "re_match (LazyStar k # ps) (x # xs) rec cap =
     (case re_match ps (x # xs) rec cap of
        Some r \<Rightarrow> Some r
      | None \<Rightarrow>
          if in_class k x
          then re_match (LazyStar k # ps) xs rec (if rec then cap @ [x] else cap)
          else None)"

fun re_search :: "item list \<Rightarrow> string \<Rightarrow> string option" where
  "re_search ps [] = map_option fst (re_match ps [] False [])"
| "re_search ps (x # xs) =
     (case re_match ps (x # xs) False [] of
        Some r \<Rightarrow> Some (fst r)
      | None \<Rightarrow> re_search ps xs)"

text \<open>The pattern of line 142,
  \<^verbatim>\<open><tr[^>]*background[^>]*>.*?<td[^>]*>(.*?)</td>\<close>.\<close>

definition table_pattern :: "item list" where
  "table_pattern =
     map Lit ''<tr'' @ [GreedyStar (NotChar CHR ''>'')] @ map Lit ''background'' @
     [GreedyStar (NotChar CHR ''>''), Lit CHR ''>'', LazyStar AnyChar] @
     map Lit ''<td'' @ [GreedyStar (NotChar CHR ''>''), Lit CHR ''>''] @
     [GroupOpen, LazyStar AnyChar, GroupClose] @ map Lit ''</td>''"

text \<open>\<^verbatim>\<open>re.sub(r'<[^>]+>', '', s)\<close>: at a \<^verbatim>\<open><\<close> the class takes every character up
  to the next \<^verbatim>\<open>>\<close>; the match needs at least one such character and the closing
  \<^verbatim>\<open>>\<close>, and is then deleted.\<close>

function remove_tags :: "string \<Rightarrow> string" where
  "remove_tags [] = []"
| "remove_tags (c # cs) =
     (if c = CHR ''<'' \<and> takeWhile (\<lambda>x. x \<noteq> CHR ''>'') cs \<noteq> [] \<and>
         dropWhile (\<lambda>x. x \<noteq> CHR ''>'') cs \<noteq> []
      then remove_tags (tl (dropWhile (\<lambda>x. x \<noteq> CHR ''>'') cs))
      else c # remove_tags cs)"
  by pat_completeness auto
termination
proof (relation "measure length")
  show "wf (measure length)" by simp
next
  fix c :: char and cs :: string
  have "length (dropWhile (\<lambda>x. x \<noteq> CHR ''>'') cs) \<le> length cs"
    by (rule length_dropWhile_le)
  then show "(tl (dropWhile (\<lambda>x. x \<noteq> CHR ''>'') cs), c # cs) \<in> measure length"
    by simp
next
  fix c :: char and cs :: string
  show "(cs, c # cs) \<in> measure length" by simp
qed

subsection \<open>The extractor\<close>

text \<open>
  The body of the \<^verbatim>\<open>try\<close> in \<^verbatim>\<open>extract_html_table_attribute_from_text\<close>, over a
  search and a tag removal that may themselves raise, and the function with its
  \<^verbatim>\<open>except Exception\<close>.  The script's own extractor is the instance with the two
  regular expressions above, which always return.
\<close>

definition extract_attribute_try ::
  "(string \<Rightarrow> error + string option) \<Rightarrow> (string \<Rightarrow> error + string) \<Rightarrow> string \<Rightarrow> error + string option" where
  "extract_attribute_try search sub html_text =
     (if html_text = [] then Inr None
      else (case search html_text of
              Inl e \<Rightarrow> Inl e
            | Inr None \<Rightarrow> Inr None
            | Inr (Some group1) \<Rightarrow>
                (case sub (strip group1) of
                   Inl e \<Rightarrow> Inl e
                 | Inr a \<Rightarrow>
                     (let attribute = strip a
                      in Inr (if attribute \<noteq> [] then Some attribute else None)))))"

definition extract_attribute_with ::
  "(string \<Rightarrow> error + string option) \<Rightarrow> (string \<Rightarrow> error + string) \<Rightarrow> string \<Rightarrow> string option" where
  "extract_attribute_with search sub html_text =
     (case extract_attribute_try search sub html_text of
        Inl e \<Rightarrow> None
      | Inr r \<Rightarrow> r)"

definition extract_html_table_attribute_from_text :: "string \<Rightarrow> string option" where
  "extract_html_table_attribute_from_text html_text =
     extract_attribute_with (\<lambda>s. Inr (re_search table_pattern s)) (\<lambda>s. Inr (remove_tags s)) html_text"

section \<open>Bulk mode\<close>

text \<open>One entry of the list that \<^verbatim>\<open>parse_all_kml_points\<close> returns.\<close>

record 'f point_data =
  pd_name :: string
  pd_coordinates :: "'f point"
  pd_description :: string
  pd_table_attribute :: "string option"

text \<open>
  The body of the \<^verbatim>\<open>for i, placemark in enumerate(placemarks)\<close> loop (lines
  90--124) for the placemark at index \<open>i\<close>: an exception, no point, or the point that is
  appended.
\<close>

definition placemark_point :: "'f float_ops \<Rightarrow> nat \<Rightarrow> element \<Rightarrow> error + 'f point_data option" where
  "placemark_point F i placemark =
     (case coords_of F (find_kml ''coordinates'' placemark) of
        Inl e \<Rightarrow> Inl e
      | Inr None \<Rightarrow> Inr None
      | Inr (Some c) \<Rightarrow>
          (let name = text_or (''Point_'' @ str_nat (i + 1)) (find_kml ''name'' placemark);
               description = text_or [] (find_kml ''description'' placemark);
               table_attribute = extract_html_table_attribute_from_text description
           in Inr (Some \<lparr>pd_name = name, pd_coordinates = c, pd_description = description,
                           pd_table_attribute = table_attribute\<rparr>)))"

text \<open>
  The loop with the list \<open>points\<close> it appends to.  An exception leaves the loop; the
  handler of line 126 keeps what \<open>points\<close> holds at that moment.
\<close>

fun placemark_loop ::
  "'f float_ops \<Rightarrow> nat \<Rightarrow> element list \<Rightarrow> 'f point_data list \<Rightarrow> 'f point_data list \<times> error option" where
  "placemark_loop F i [] points = (points, None)"
| "placemark_loop F i (placemark # rest) points =
     (case placemark_point F i placemark of
        Inl e \<Rightarrow> (points, Some e)
      | Inr None \<Rightarrow> placemark_loop F (i + 1) rest points
      | Inr (Some p) \<Rightarrow> placemark_loop F (i + 1) rest (points @ [p]))"

definition parse_all_kml_points_try :: "'f float_ops \<Rightarrow> kml_file \<Rightarrow> 'f point_data list \<times> error option" where
  "parse_all_kml_points_try F file =
     (case file of
        Unreadable \<Rightarrow> ([], Some ParseError)
      | Doc root \<Rightarrow> placemark_loop F 0 (find_placemarks root) [])"

definition parse_all_kml_points :: "'f float_ops \<Rightarrow> kml_file \<Rightarrow> 'f point_data list" where
  "parse_all_kml_points F file = fst (parse_all_kml_points_try F file)"

section \<open>The run\<close>

text \<open>
  The directories the script reads: \<^verbatim>\<open>base_kml/base.kml\<close>, which may not exist, and
  the \<^verbatim>\<open>*.kml\<close> files of \<^verbatim>\<open>input_points_kml\<close> under their file names, in the
  order the file system lists them; the directory itself may not exist.
\<close>

record environment =
  base_kml :: "kml_file option"
  input_points_kml :: "(string \<times> kml_file) list option"

definition get_base_point :: "'f float_ops \<Rightarrow> environment \<Rightarrow> error + 'f point" where
  "get_base_point F env =
     (case base_kml env of
        None \<Rightarrow> Inl FileNotFoundError
      | Some file \<Rightarrow>
          (case parse_kml_point F file of
             None \<Rightarrow> Inl ValueError
           | Some base_point \<Rightarrow> Inr base_point))"

text \<open>\<^verbatim>\<open>Path.stem\<close>: the file name without its last suffix.\<close>

definition stem :: "string \<Rightarrow> string" where
  "stem fname =
     (let suffix = takeWhile (\<lambda>c. c \<noteq> CHR ''.'') (rev fname);
          front = dropWhile (\<lambda>c. c \<noteq> CHR ''.'') (rev fname)
      in if suffix = [] \<or> length front \<le> 1 then fname else rev (tl front))"

record 'f destination =
  dp_filename :: string
  dp_name :: string
  dp_coordinates :: "'f point"
  dp_table_attribute :: "string option"
  dp_kml_path :: string

definition get_destination_points :: "'f float_ops \<Rightarrow> environment \<Rightarrow> 'f destination list" where
  "get_destination_points F env =
     (case input_points_kml env of
        None \<Rightarrow> []
      | Some files \<Rightarrow>
          concat (map (\<lambda>(kml_file, content).
                    map (\<lambda>point_data.
                           \<lparr>dp_filename = stem kml_file, dp_name = pd_name point_data,
                            dp_coordinates = pd_coordinates point_data,
                            dp_table_attribute = pd_table_attribute point_data,
                            dp_kml_path = kml_file\<rparr>)
                        (parse_all_kml_points F content))
                  (sort_key fst files)))"

section \<open>Mission documents\<close>

text \<open>
  The f-string of \<^verbatim>\<open>create_dji_mission_kml\<close> (lines 208--252), cut at its holes
  into four constant parts.  Lines end with a line feed and are indented with tabs.
\<close>

definition nl :: string where
  "nl = [CHR 0x0A]"

definition tabs :: "nat \<Rightarrow> string" where
  "tabs n = replicate n (CHR 0x09)"

text \<open>From the XML declaration to the opening of the document name.\<close>

definition kml_part1 :: string where
  \<open>kml_part1 =
     ''<?xml version="1.0" encoding="UTF-8"?>'' @ nl @
     ''<kml xmlns="http://www.opengis.net/kml/2.2" xmlns:gx="http://www.google.com/kml/ext/2.2" xmlns:kml="http://www.opengis.net/kml/2.2" xmlns:atom="http://www.w3.org/2005/Atom">'' @ nl @
     ''<Document>'' @ nl @
     tabs 1 @ ''<name>''\<close>

text \<open>From the end of the document name, through the constant styles, to the opening of the name of the feature.\<close>

definition kml_part2 :: string where
  \<open>kml_part2 =
     ''.kml</name>'' @ nl @
     tabs 1 @ ''<StyleMap id="m_ylw-pushpin">'' @ nl @
     tabs 2 @ ''<Pair>'' @ nl @
     tabs 3 @ ''<key>normal</key>'' @ nl @
     tabs 3 @ ''<styleUrl>#s_ylw-pushpin</styleUrl>'' @ nl @
     tabs 2 @ ''</Pair>'' @ nl @
     tabs 2 @ ''<Pair>'' @ nl @
     tabs 3 @ ''<key>highlight</key>'' @ nl @
     tabs 3 @ ''<styleUrl>#s_ylw-pushpin_hl</styleUrl>'' @ nl @
     tabs 2 @ ''</Pair>'' @ nl @
     tabs 1 @ ''</StyleMap>'' @ nl @
     tabs 1 @ ''<Style id="s_ylw-pushpin">'' @ nl @
     tabs 2 @ ''<IconStyle>'' @ nl @
     tabs 3 @ ''<scale>1.1</scale>'' @ nl @
     tabs 3 @ ''<Icon>'' @ nl @
     tabs 4 @ ''<href>http://maps.google.com/mapfiles/kml/pushpin/ylw-pushpin.png</href>'' @ nl @
     tabs 3 @ ''</Icon>'' @ nl @
     tabs 3 @ ''<hotSpot x="20" y="2" xunits="pixels" yunits="pixels"/>'' @ nl @
     tabs 2 @ ''</IconStyle>'' @ nl @
     tabs 1 @ ''</Style>'' @ nl @
     tabs 1 @ ''<Style id="s_ylw-pushpin_hl">'' @ nl @
     tabs 2 @ ''<IconStyle>'' @ nl @
     tabs 3 @ ''<scale>1.3</scale>'' @ nl @
     tabs 3 @ ''<Icon>'' @ nl @
     tabs 4 @ ''<href>http://maps.google.com/mapfiles/kml/pushpin/ylw-pushpin.png</href>'' @ nl @
     tabs 3 @ ''</Icon>'' @ nl @
     tabs 3 @ ''<hotSpot x="20" y="2" xunits="pixels" yunits="pixels"/>'' @ nl @
     tabs 2 @ ''</IconStyle>'' @ nl @
     tabs 1 @ ''</Style>'' @ nl @
     tabs 1 @ ''<Placemark>'' @ nl @
     tabs 2 @ ''<name>''\<close>

text \<open>From the end of the name of the feature to the start of the coordinate text.\<close>

definition kml_part3 :: string where
  \<open>kml_part3 =
     ''</name>'' @ nl @
     tabs 2 @ ''<styleUrl>#m_ylw-pushpin</styleUrl>'' @ nl @
     tabs 2 @ ''<LineString>'' @ nl @
     tabs 3 @ ''<tessellate>1</tessellate>'' @ nl @
     tabs 3 @ ''<coordinates>'' @ nl @
     tabs 4\<close>

text \<open>From the end of the coordinate text to the end of the document.\<close>

definition kml_part4 :: string where
  \<open>kml_part4 =
     nl @
     tabs 3 @ ''</coordinates>'' @ nl @
     tabs 2 @ ''</LineString>'' @ nl @
     tabs 2 @ ''<atom:link rel="app" href="https://www.google.com/earth/about/versions/#earth-pro" title="Google Earth Pro 7.3.6.10201"></atom:link>'' @ nl @
     tabs 1 @ ''</Placemark>'' @ nl @
     ''</Document>'' @ nl @
     ''</kml>''\<close>

text \<open>\<^verbatim>\<open>{p[0]},{p[1]},{p[2]}\<close>.\<close>

definition coord_triple :: "'f float_ops \<Rightarrow> 'f point \<Rightarrow> string" where
  "coord_triple F p =
     (case p of (lon, lat, alt) \<Rightarrow>
        str_of_float F lon @ '','' @ str_of_float F lat @ '','' @ str_of_float F alt)"

definition create_dji_mission_kml :: "'f float_ops \<Rightarrow> 'f point \<Rightarrow> 'f point \<Rightarrow> string \<Rightarrow> string" where
  "create_dji_mission_kml F base_point target_point mission_name =
     (let clean = clean_name mission_name
      in kml_part1 @ clean @ kml_part2 @ clean @ kml_part3 @
         coord_triple F base_point @ '' '' @ coord_triple F target_point @ '' '' @ kml_part4)"

section \<open>Writing the mission files\<close>

text \<open>\<^verbatim>\<open>"_".join(parts)\<close>.\<close>

fun join_with :: "string \<Rightarrow> string list \<Rightarrow> string" where
  "join_with sep [] = []"
| "join_with sep [x] = x"
| "join_with sep (x # y # ys) = x @ sep @ join_with sep (y # ys)"

text \<open>
  Lines 289--299: the file name of the point at position \<open>i\<close>.  The test
  \<^verbatim>\<open>if point_data['table_attribute']:\<close> holds for a string that is present and not
  empty.
\<close>

definition output_filename :: "nat \<Rightarrow> string option \<Rightarrow> string" where
  "output_filename i table_attribute =
     (let file_number = format_03d i;
          filename_parts =
            (case table_attribute of
               None \<Rightarrow> [file_number]
             | Some a \<Rightarrow> if a = [] then [file_number] else [file_number, clean_name a])
      in join_with ''_'' filename_parts @ ''.kml'')"

text \<open>
  The loop \<^verbatim>\<open>for i, point_data in enumerate(destination_points, 1)\<close>: the writes
  it performs, in order, each a file name of \<^verbatim>\<open>output_paths\<close> and the content
  written there.
\<close>

fun write_missions ::
  "'f float_ops \<Rightarrow> 'f point \<Rightarrow> nat \<Rightarrow> 'f destination list \<Rightarrow> (string \<times> string) list" where
  "write_missions F base_point i [] = []"
| "write_missions F base_point i (point_data # rest) =
     (output_filename i (dp_table_attribute point_data),
      create_dji_mission_kml F base_point (dp_coordinates point_data) (dp_name point_data))
     # write_missions F base_point (i + 1) rest"

text \<open>
  How the process ends: \<^verbatim>\<open>process_all_points\<close> returns, or its handler calls
  \<^verbatim>\<open>sys.exit(1)\<close>.  Writing a file is taken to succeed.
\<close>

datatype status = Returned | Exit nat

definition process_all_points :: "'f float_ops \<Rightarrow> environment \<Rightarrow> status \<times> (string \<times> string) list" where
  "process_all_points F env =
     (case get_base_point F env of
        Inl e \<Rightarrow> (Exit 1, [])
      | Inr base_point \<Rightarrow>
          (let destination_points = get_destination_points F env
           in if destination_points = [] then (Returned, [])
              else (Returned, write_missions F base_point 1 destination_points)))"

text \<open>The output directory after a sequence of writes: \<^verbatim>\<open>open(path, 'w')\<close> replaces
  what a file of that name held.\<close>

definition files_after :: "(string \<rightharpoonup> string) \<Rightarrow> (string \<times> string) list \<Rightarrow> (string \<rightharpoonup> string)" where
  "files_after fs writes = fold (\<lambda>(fname, content) m. m(fname \<mapsto> content)) writes fs"

subsection \<open>Whole-number coordinates\<close>

text \<open>
  An instance of the conversions for closed examples: coordinates written as whole
  numbers, an optional minus sign and digits, on which \<^verbatim>\<open>float\<close> is exact and
  prints the digits followed by \<^verbatim>\<open>.0\<close>.  \<^verbatim>\<open>float\<close> ignores whitespace around
  the number.
\<close>

fun digits_value :: "nat \<Rightarrow> string \<Rightarrow> nat option" where
  "digits_value acc [] = Some acc"
| "digits_value acc (c # cs) =
     (let n = of_char c :: nat
      in if 48 \<le> n \<and> n \<le> 57 then digits_value (10 * acc + (n - 48)) cs else None)"

definition whole_of_str :: "string \<Rightarrow> int option" where
  "whole_of_str s =
     (case strip s of
        [] \<Rightarrow> None
      | c # cs \<Rightarrow>
          if c = CHR ''-'' then (if cs = [] then None else map_option (\<lambda>n. - int n) (digits_value 0 cs))
          else map_option int (digits_value 0 (c # cs)))"

definition str_of_whole :: "int \<Rightarrow> string" where
  "str_of_whole x = (if x < 0 then ''-'' else []) @ str_nat (nat \<bar>x\<bar>) @ ''.0''"

definition whole_floats :: "int float_ops" where
  "whole_floats = \<lparr>float_of_str = whole_of_str, float_zero = 0, str_of_float = str_of_whole\<rparr>"

section \<open>Example documents\<close>

text \<open>
  Documents for the closed examples, shaped as a KML file is after parsing: every tag in
  the KML namespace, the markers under \<^verbatim>\<open>kml/Document\<close>, each marker with an
  optional name, an optional description and a point with its coordinate text.
\<close>

definition marker :: "string option \<Rightarrow> string \<Rightarrow> string \<Rightarrow> element" where
  "marker name description coords =
     Element (kml_ns @ ''Placemark'') None
       ((case name of None \<Rightarrow> [] | Some n \<Rightarrow> [Element (kml_ns @ ''name'') (Some n) []]) @
        (if description = [] then [] else [Element (kml_ns @ ''description'') (Some description) []]) @
        [Element (kml_ns @ ''Point'') None [Element (kml_ns @ ''coordinates'') (Some coords) []]])"

definition kml_root :: "element list \<Rightarrow> element" where
  "kml_root markers = Element (kml_ns @ ''kml'') None [Element (kml_ns @ ''Document'') None markers]"

section \<open>Notions used in the statements\<close>

text \<open>
  The coordinate text that the lookup finds in an element has fewer than two
  comma-separated components; a missing node or a missing text has none.
\<close>

definition fewer_than_two_components :: "element \<Rightarrow> bool" where
  "fewer_than_two_components e =
     (case find_kml ''coordinates'' e of
        None \<Rightarrow> True
      | Some ce \<Rightarrow>
          (case elem_text ce of
             None \<Rightarrow> True
           | Some t \<Rightarrow> length (split_on CHR '','' (strip t)) < 2))"




text \<open>A marker without a usable name: no name node, or one whose text is missing or
  empty.\<close>

definition has_no_name :: "element \<Rightarrow> bool" where
  "has_no_name m =
     (case find_kml ''name'' m of
        None \<Rightarrow> True
      | Some d \<Rightarrow> (case elem_text d of None \<Rightarrow> True | Some t \<Rightarrow> t = []))"

text \<open>
  Two readings of ``a coordinate component that is not a valid number''.  The first takes
  the words as they stand: some comma-separated piece of the marker's coordinate text does
  not convert.  The second names the pieces the script converts: the text has at least two
  pieces, and one of the first three does not convert.
\<close>

definition non_numeric_component :: "'f float_ops \<Rightarrow> element \<Rightarrow> bool" where
  "non_numeric_component F m =
     (case find_kml ''coordinates'' m of
        None \<Rightarrow> False
      | Some ce \<Rightarrow>
          (case elem_text ce of
             None \<Rightarrow> False
           | Some t \<Rightarrow> list_ex (\<lambda>c. float_of_str F c = None) (split_on CHR '','' (strip t))))"

definition unusable_number :: "'f float_ops \<Rightarrow> element \<Rightarrow> bool" where
  "unusable_number F m =
     (case find_kml ''coordinates'' m of
        None \<Rightarrow> False
      | Some ce \<Rightarrow>
          (case elem_text ce of
             None \<Rightarrow> False
           | Some t \<Rightarrow>
               (let coords = split_on CHR '','' (strip t)
                in length coords \<ge> 2 \<and> list_ex (\<lambda>c. float_of_str F c = None) (take 3 coords))))"

text \<open>
  A run for the closed examples: a base point, and two input files listed in the order
  \<^verbatim>\<open>b.kml\<close>, \<^verbatim>\<open>a.kml\<close>.  The two markers of \<^verbatim>\<open>b.kml\<close> carry the labels
  \<^verbatim>\<open>Tower A\<close> and \<^verbatim>\<open>Tower_A\<close>, which sanitize to the same string; the marker of
  \<^verbatim>\<open>a.kml\<close> carries none.
\<close>

definition tower_env :: environment where
  "tower_env =
     \<lparr>base_kml = Some (Doc (kml_root [marker (Some ''Base'') [] ''1,2,3''])),
      input_points_kml = Some
        [(''b.kml'', Doc (kml_root
            [marker (Some ''North'') ''<tr style=background:#ccc><td>Tower A</td></tr>'' ''4,5,6'',
             marker (Some ''South'') ''<tr style=background:#ccc><td>Tower_A</td></tr>'' ''7,8''])),
         (''a.kml'', Doc (kml_root [marker None [] ''9,10'']))]\<rparr>"

text \<open>A decimal digit.\<close>

definition is_digit :: "char \<Rightarrow> bool" where
  "is_digit c = (48 \<le> (of_char c :: nat) \<and> (of_char c :: nat) \<le> 57)"

section \<open>Reading a rendered document\<close>









section \<open>Evaluation of closed examples\<close>

text \<open>The defining equations that the closed examples unfold.\<close>

lemmas document_simps =
  kml_root_def marker_def find_kml_def find_elem_def findall_def find_placemarks_def kml_ns_def
  strip_def is_space_def

lemmas whole_simps =
  whole_floats_def whole_of_str_def str_of_whole_def

lemmas matcher_simps =
  table_pattern_def fold_case_def strip_def is_space_def

lemmas bulk_simps =
  parse_all_kml_points_def parse_all_kml_points_try_def placemark_point_def coords_of_def
  parse_coords_def text_or_def extract_html_table_attribute_from_text_def
  extract_attribute_with_def extract_attribute_try_def str_nat.simps digit_char_def

lemmas run_simps =
  get_destination_points_def get_base_point_def parse_kml_point_def parse_kml_point_try_def
  stem_def matcher_simps bulk_simps whole_simps document_simps

section \<open>Properties of name sanitization\<close>

lemma sub_disallowed_spec: "sub_disallowed s = spec_replace s"
  by (simp add: sub_disallowed_def spec_replace_def is_word_def)

lemma spec_trim_right_all_space: "list_all is_space s \<Longrightarrow> spec_trim_right s = []"
  by (cases s) simp_all

lemma rev_dropWhile_rev_spec: "rev (dropWhile is_space (rev s)) = spec_trim_right s"
proof (induction s)
  case Nil
  show ?case by simp
next
  case (Cons c cs)
  show ?case
  proof (cases "list_all is_space cs")
    case True
    then have "\<forall>x\<in>set (rev cs). is_space x" by (simp add: list_all_iff)
    then have "dropWhile is_space (rev cs @ [c]) = dropWhile is_space [c]"
      by (simp add: dropWhile_append)
    with True show ?thesis
      by (simp add: spec_trim_right_all_space)
  next
    case False
    then have "\<not> (\<forall>x\<in>set (rev cs). is_space x)" by (simp add: list_all_iff)
    then have "dropWhile is_space (rev cs @ [c]) = dropWhile is_space (rev cs) @ [c]"
      by (simp add: dropWhile_append)
    with False Cons.IH show ?thesis by simp
  qed
qed

lemma strip_spec: "strip s = spec_trim s"
  by (simp add: strip_def spec_trim_def rev_dropWhile_rev_spec)

lemma sub_spaces_spec:
  "spec_collapse False s = sub_spaces s \<and>
   spec_collapse True s = sub_spaces (dropWhile is_space s)"
  by (induction s) simp_all

text \<open>
  C3.  Sanitization is the three steps of the specification in their order: the replacement
  of every character that is not alphanumeric, underscore, hyphen or whitespace by an
  underscore, then the trimming of whitespace at both ends, then the collapse of every
  remaining run of whitespace into one underscore.  On \<^verbatim>\<open>Tower #3 (north)\<close> it
  yields \<^verbatim>\<open>Tower__3__north_\<close>.
\<close>

theorem clean_name_sanitizes:
  "clean_name s = spec_sanitize s \<and> clean_name ''Tower #3 (north)'' = ''Tower__3__north_''"
proof
  show "clean_name s = spec_sanitize s"
    by (simp add: clean_name_def spec_sanitize_def sub_disallowed_spec strip_spec sub_spaces_spec)
  show "clean_name ''Tower #3 (north)'' = ''Tower__3__north_''"
    by (simp add: clean_name_def sub_disallowed_def strip_def is_word_def is_alnum_def is_space_def)
qed

section \<open>Properties of coordinate parsing\<close>

lemma parse_coords_two:
  assumes "split_on CHR '','' (strip ctext) = [a, b]"
    and "float_of_str F a = Some lon" and "float_of_str F b = Some lat"
  shows "parse_coords F ctext = Inr (Some (lon, lat, float_zero F))"
  using assms by (simp add: parse_coords_def)

lemma parse_coords_three:
  assumes "split_on CHR '','' (strip ctext) = [a, b, c]"
    and "float_of_str F a = Some lon" and "float_of_str F b = Some lat"
    and "float_of_str F c = Some alt"
  shows "parse_coords F ctext = Inr (Some (lon, lat, alt))"
  using assms by (simp add: parse_coords_def)

lemma split_on_strip_nonempty:
  assumes "split_on CHR '','' (strip ctext) = a # b # rest"
  shows "ctext \<noteq> []"
  using assms by (auto simp: strip_def)

lemma coords_of_text:
  assumes "find_kml ''coordinates'' e = Some ce" and "elem_text ce = Some ctext"
    and "parse_coords F ctext = Inr (Some p)" and "ctext \<noteq> []"
  shows "parse_kml_point F (Doc e) = Some p"
    and "\<exists>d. placemark_point F i e = Inr (Some d) \<and> pd_coordinates d = p"
  using assms
  by (simp_all add: parse_kml_point_def parse_kml_point_try_def coords_of_def placemark_point_def Let_def)

text \<open>
  C4.  In both modes, for the coordinate node that the lookup finds in an element: when its
  stripped text splits at commas into exactly two pieces that convert to numbers, the point
  has their values and elevation \<open>0.0\<close>; when it splits into exactly three such pieces,
  the elevation is the value of the third piece.
\<close>

theorem elevation_of_coordinate_text:
  "(\<forall>e ce ctext a b lon lat.
      find_kml ''coordinates'' e = Some ce \<and> elem_text ce = Some ctext \<and>
      split_on CHR '','' (strip ctext) = [a, b] \<and>
      float_of_str F a = Some lon \<and> float_of_str F b = Some lat \<longrightarrow>
      parse_kml_point F (Doc e) = Some (lon, lat, float_zero F) \<and>
      (\<exists>d. placemark_point F i e = Inr (Some d) \<and> pd_coordinates d = (lon, lat, float_zero F))) \<and>
   (\<forall>e ce ctext a b c lon lat alt.
      find_kml ''coordinates'' e = Some ce \<and> elem_text ce = Some ctext \<and>
      split_on CHR '','' (strip ctext) = [a, b, c] \<and>
      float_of_str F a = Some lon \<and> float_of_str F b = Some lat \<and> float_of_str F c = Some alt \<longrightarrow>
      parse_kml_point F (Doc e) = Some (lon, lat, alt) \<and>
      (\<exists>d. placemark_point F i e = Inr (Some d) \<and> pd_coordinates d = (lon, lat, alt)))"
proof (intro conjI allI impI)
  fix e ce ctext a b lon lat
  assume h: "find_kml ''coordinates'' e = Some ce \<and> elem_text ce = Some ctext \<and>
      split_on CHR '','' (strip ctext) = [a, b] \<and>
      float_of_str F a = Some lon \<and> float_of_str F b = Some lat"
  then have p: "parse_coords F ctext = Inr (Some (lon, lat, float_zero F))"
    by (simp add: parse_coords_two)
  from h have ne: "ctext \<noteq> []" by (auto dest: split_on_strip_nonempty)
  from h p ne show "parse_kml_point F (Doc e) = Some (lon, lat, float_zero F)"
    by (simp add: coords_of_text(1))
  from h p ne show "\<exists>d. placemark_point F i e = Inr (Some d) \<and> pd_coordinates d = (lon, lat, float_zero F)"
    by (simp add: coords_of_text(2))
next
  fix e ce ctext a b c lon lat alt
  assume h: "find_kml ''coordinates'' e = Some ce \<and> elem_text ce = Some ctext \<and>
      split_on CHR '','' (strip ctext) = [a, b, c] \<and>
      float_of_str F a = Some lon \<and> float_of_str F b = Some lat \<and> float_of_str F c = Some alt"
  then have p: "parse_coords F ctext = Inr (Some (lon, lat, alt))"
    by (simp add: parse_coords_three)
  from h have ne: "ctext \<noteq> []" by (auto dest: split_on_strip_nonempty)
  from h p ne show "parse_kml_point F (Doc e) = Some (lon, lat, alt)"
    by (simp add: coords_of_text(1))
  from h p ne show "\<exists>d. placemark_point F i e = Inr (Some d) \<and> pd_coordinates d = (lon, lat, alt)"
    by (simp add: coords_of_text(2))
qed

lemma find_coordinates_marker:
  "find_kml ''coordinates'' (kml_root [marker name description coords]) =
     Some (Element (kml_ns @ ''coordinates'') (Some coords) [])"
  by (cases name) (simp_all add: document_simps)

lemma whole_of_str_examples:
  "float_of_str whole_floats ''10'' = Some 10"
  "float_of_str whole_floats ''20'' = Some 20"
  "float_of_str whole_floats ''30'' = Some 30"
  by (simp_all add: whole_floats_def whole_of_str_def strip_def is_space_def)

theorem elevation_of_coordinate_text_witness:
  "parse_kml_point whole_floats (Doc (kml_root [marker None [] ''10,20''])) = Some (10, 20, 0) \<and>
   parse_kml_point whole_floats (Doc (kml_root [marker None [] ''10,20,30''])) = Some (10, 20, 30) \<and>
   split_on CHR '','' (strip ''10,20'') = [''10'', ''20''] \<and>
   split_on CHR '','' (strip ''10,20,30'') = [''10'', ''20'', ''30'']"
proof (intro conjI)
  show s: "split_on CHR '','' (strip ''10,20'') = [''10'', ''20'']"
    by (simp add: strip_def is_space_def)
  have "parse_kml_point whole_floats (Doc (kml_root [marker None [] ''10,20''])) = Some (10, 20, float_zero whole_floats)"
    using elevation_of_coordinate_text [where F = whole_floats, THEN conjunct1] find_coordinates_marker s
      whole_of_str_examples
    by (metis element.sel(2))
  then show "parse_kml_point whole_floats (Doc (kml_root [marker None [] ''10,20''])) = Some (10, 20, 0)"
    by (simp add: whole_floats_def)
  show s: "split_on CHR '','' (strip ''10,20,30'') = [''10'', ''20'', ''30'']"
    by (simp add: strip_def is_space_def)
  show "parse_kml_point whole_floats (Doc (kml_root [marker None [] ''10,20,30''])) = Some (10, 20, 30)"
    using elevation_of_coordinate_text [where F = whole_floats, THEN conjunct2] find_coordinates_marker s
      whole_of_str_examples
    by (metis element.sel(2))
qed

section \<open>Properties of attribute extraction\<close>

lemma extract_attribute_with_nonempty: "extract_attribute_with search sub t \<noteq> Some []"
  by (simp add: extract_attribute_with_def extract_attribute_try_def Let_def
      split: sum.splits option.splits)

lemma extract_attribute_with_failure:
  "isl (extract_attribute_try search sub t) \<Longrightarrow> extract_attribute_with search sub t = None"
  by (cases "extract_attribute_try search sub t") (simp_all add: extract_attribute_with_def)

lemma extract_attribute_iff:
  "extract_html_table_attribute_from_text t = Some a \<longleftrightarrow>
     t \<noteq> [] \<and> a \<noteq> [] \<and>
     (\<exists>g. re_search table_pattern t = Some g \<and> a = strip (remove_tags (strip g)))"
  by (cases "re_search table_pattern t")
    (auto simp: extract_html_table_attribute_from_text_def extract_attribute_with_def
      extract_attribute_try_def Let_def)

text \<open>
  C6.  The extractor is a total function into an optional string, so no annotation makes it
  raise.  It answers absence for the empty annotation, when the row pattern finds no match,
  and when the matched cell is empty after the tags are removed and the text is trimmed; it
  never answers the empty string; it answers a label exactly when the pattern matches and
  the cleaned cell is not empty.  Whatever the search or the tag removal do, a failure
  inside the \<^verbatim>\<open>try\<close> block ends in absence.
\<close>

theorem attribute_absent_never_empty:
  "extract_html_table_attribute_from_text [] = None \<and>
   (re_search table_pattern t = None \<longrightarrow> extract_html_table_attribute_from_text t = None) \<and>
   (\<forall>g. re_search table_pattern t = Some g \<and> strip (remove_tags (strip g)) = [] \<longrightarrow>
        extract_html_table_attribute_from_text t = None) \<and>
   extract_html_table_attribute_from_text t \<noteq> Some [] \<and>
   (\<forall>a. extract_html_table_attribute_from_text t = Some a \<longleftrightarrow>
        t \<noteq> [] \<and> a \<noteq> [] \<and>
        (\<exists>g. re_search table_pattern t = Some g \<and> a = strip (remove_tags (strip g)))) \<and>
   (\<forall>search sub.
        extract_attribute_with search sub t \<noteq> Some [] \<and>
        (isl (extract_attribute_try search sub t) \<longrightarrow> extract_attribute_with search sub t = None))"
proof (intro conjI allI impI)
  show "extract_html_table_attribute_from_text [] = None"
    by (simp add: extract_html_table_attribute_from_text_def extract_attribute_with_def
        extract_attribute_try_def)
next
  assume "re_search table_pattern t = None"
  then show "extract_html_table_attribute_from_text t = None"
    by (simp add: extract_html_table_attribute_from_text_def extract_attribute_with_def
        extract_attribute_try_def)
next
  fix g
  assume "re_search table_pattern t = Some g \<and> strip (remove_tags (strip g)) = []"
  then show "extract_html_table_attribute_from_text t = None"
    by (simp add: extract_html_table_attribute_from_text_def extract_attribute_with_def
        extract_attribute_try_def)
next
  show "extract_html_table_attribute_from_text t \<noteq> Some []"
    by (simp add: extract_html_table_attribute_from_text_def extract_attribute_with_nonempty)
next
  fix a
  show "extract_html_table_attribute_from_text t = Some a \<longleftrightarrow>
        t \<noteq> [] \<and> a \<noteq> [] \<and>
        (\<exists>g. re_search table_pattern t = Some g \<and> a = strip (remove_tags (strip g)))"
    by (rule extract_attribute_iff)
next
  fix search sub
  show "extract_attribute_with search sub t \<noteq> Some []"
    by (rule extract_attribute_with_nonempty)
next
  fix search sub
  assume "isl (extract_attribute_try search sub t)"
  then show "extract_attribute_with search sub t = None"
    by (rule extract_attribute_with_failure)
qed

lemma search_no_background: "re_search table_pattern ''<tr><td>x</td></tr>'' = None"
  by (simp add: matcher_simps)

lemma search_blank_cell:
  "re_search table_pattern ''<tr style=background:#ccc><td> <b></b> </td></tr>'' = Some '' <b></b> ''"
  by (simp add: matcher_simps)

lemma search_tower:
  "re_search table_pattern ''<table><TR style=background:#ccc><td>Tower <b>A</b></td><td>x</td></TR></table>''
     = Some ''Tower <b>A</b>''"
  by (simp add: matcher_simps)

theorem attribute_absent_never_empty_witness:
  "re_search table_pattern ''<tr><td>x</td></tr>'' = None \<and>
   extract_html_table_attribute_from_text ''<tr><td>x</td></tr>'' = None \<and>
   re_search table_pattern ''<tr style=background:#ccc><td> <b></b> </td></tr>'' = Some '' <b></b> '' \<and>
   strip (remove_tags (strip '' <b></b> '')) = [] \<and>
   extract_html_table_attribute_from_text ''<tr style=background:#ccc><td> <b></b> </td></tr>'' = None \<and>
   extract_html_table_attribute_from_text
     ''<table><TR style=background:#ccc><td>Tower <b>A</b></td><td>x</td></TR></table>'' = Some ''Tower A'' \<and>
   isl (extract_attribute_try (\<lambda>s. Inl ValueError) (\<lambda>s. Inr s) ''<tr>'') \<and>
   extract_attribute_with (\<lambda>s. Inl ValueError) (\<lambda>s. Inr s) ''<tr>'' = None"
proof (intro conjI)
  show 1: "re_search table_pattern ''<tr><td>x</td></tr>'' = None"
    by (rule search_no_background)
  show "extract_html_table_attribute_from_text ''<tr><td>x</td></tr>'' = None"
    using attribute_absent_never_empty [of "''<tr><td>x</td></tr>''"] 1 by blast
  show 2: "re_search table_pattern ''<tr style=background:#ccc><td> <b></b> </td></tr>'' = Some '' <b></b> ''"
    by (rule search_blank_cell)
  show 3: "strip (remove_tags (strip '' <b></b> '')) = []"
    by (simp add: strip_def is_space_def)
  show "extract_html_table_attribute_from_text ''<tr style=background:#ccc><td> <b></b> </td></tr>'' = None"
    using attribute_absent_never_empty [of "''<tr style=background:#ccc><td> <b></b> </td></tr>''"] 2 3
    by blast
  have 4: "strip (remove_tags (strip ''Tower <b>A</b>'')) = ''Tower A''"
    by (simp add: strip_def is_space_def)
  show "extract_html_table_attribute_from_text
     ''<table><TR style=background:#ccc><td>Tower <b>A</b></td><td>x</td></TR></table>'' = Some ''Tower A''"
    using attribute_absent_never_empty
      [of "''<table><TR style=background:#ccc><td>Tower <b>A</b></td><td>x</td></TR></table>''"]
      search_tower 4
    by (metis list.distinct(1))
  show 5: "isl (extract_attribute_try (\<lambda>s. Inl ValueError) (\<lambda>s. Inr s) ''<tr>'')"
    by (simp add: extract_attribute_try_def)
  show "extract_attribute_with (\<lambda>s. Inl ValueError) (\<lambda>s. Inr s) ''<tr>'' = None"
    using attribute_absent_never_empty [of "''<tr>''"] 5 by blast
qed

section \<open>Properties of single-point mode and of the base point\<close>




lemma fewer_than_two_no_point:
  "fewer_than_two_components e \<Longrightarrow> coords_of F (find_kml ''coordinates'' e) = Inr None"
  by (auto simp: fewer_than_two_components_def coords_of_def parse_coords_def Let_def
      split: option.splits)

text \<open>
  C8.  When \<^verbatim>\<open>base.kml\<close> does not exist, cannot be read, or holds a coordinate text
  with fewer than two components, the run ends with exit status 1 and has written no file:
  the output directory is as it was.
\<close>

theorem base_failure_aborts:
  assumes "base_kml env = None \<or> base_kml env = Some Unreadable \<or>
           (\<exists>root. base_kml env = Some (Doc root) \<and> fewer_than_two_components root)"
  shows "process_all_points F env = (Exit 1, []) \<and>
         files_after fs (snd (process_all_points F env)) = fs"
proof -
  have "\<exists>e. get_base_point F env = Inl e"
    using assms
    by (auto simp: get_base_point_def parse_kml_point_def parse_kml_point_try_def
        fewer_than_two_no_point)
  then have "process_all_points F env = (Exit 1, [])"
    by (auto simp: process_all_points_def)
  then show ?thesis by (simp add: files_after_def)
qed

theorem base_failure_aborts_witness:
  "process_all_points whole_floats
     \<lparr>base_kml = None, input_points_kml = Some [(''a.kml'', Doc (kml_root [marker None [] ''1,2'']))]\<rparr>
     = (Exit 1, []) \<and>
   process_all_points whole_floats
     \<lparr>base_kml = Some Unreadable, input_points_kml = Some [(''a.kml'', Doc (kml_root [marker None [] ''1,2'']))]\<rparr>
     = (Exit 1, []) \<and>
   fewer_than_two_components (kml_root [marker (Some ''Base'') [] ''7'']) \<and>
   process_all_points whole_floats
     \<lparr>base_kml = Some (Doc (kml_root [marker (Some ''Base'') [] ''7''])),
      input_points_kml = Some [(''a.kml'', Doc (kml_root [marker None [] ''1,2'']))]\<rparr>
     = (Exit 1, [])"
proof (intro conjI)
  show "process_all_points whole_floats
     \<lparr>base_kml = None, input_points_kml = Some [(''a.kml'', Doc (kml_root [marker None [] ''1,2'']))]\<rparr>
     = (Exit 1, [])"
    using base_failure_aborts
      [of "\<lparr>base_kml = None, input_points_kml = Some [(''a.kml'', Doc (kml_root [marker None [] ''1,2'']))]\<rparr>"
          whole_floats]
    by simp
  show "process_all_points whole_floats
     \<lparr>base_kml = Some Unreadable, input_points_kml = Some [(''a.kml'', Doc (kml_root [marker None [] ''1,2'']))]\<rparr>
     = (Exit 1, [])"
    using base_failure_aborts
      [of "\<lparr>base_kml = Some Unreadable, input_points_kml = Some [(''a.kml'', Doc (kml_root [marker None [] ''1,2'']))]\<rparr>"
          whole_floats]
    by simp
  show short: "fewer_than_two_components (kml_root [marker (Some ''Base'') [] ''7''])"
    by (simp add: fewer_than_two_components_def kml_root_def marker_def find_kml_def find_elem_def
        findall_def kml_ns_def strip_def is_space_def)
  show "process_all_points whole_floats
     \<lparr>base_kml = Some (Doc (kml_root [marker (Some ''Base'') [] ''7''])),
      input_points_kml = Some [(''a.kml'', Doc (kml_root [marker None [] ''1,2'']))]\<rparr>
     = (Exit 1, [])"
    using base_failure_aborts
      [of "\<lparr>base_kml = Some (Doc (kml_root [marker (Some ''Base'') [] ''7''])),
            input_points_kml = Some [(''a.kml'', Doc (kml_root [marker None [] ''1,2'']))]\<rparr>"
          whole_floats]
      short
    by simp
qed




section \<open>Properties of bulk mode\<close>

lemma placemark_loop_append:
  "placemark_loop F i (xs @ ys) points =
     (case placemark_loop F i xs points of
        (points', Some e) \<Rightarrow> (points', Some e)
      | (points', None) \<Rightarrow> placemark_loop F (i + length xs) ys points')"
proof (induction xs arbitrary: i points)
  case Nil
  show ?case by simp
next
  case (Cons x xs)
  show ?case
  proof (cases "placemark_point F i x")
    case (Inl e)
    then show ?thesis by simp
  next
    case (Inr r)
    then show ?thesis
      by (cases r) (simp_all add: Cons.IH split: prod.splits option.splits)
  qed
qed

lemma placemark_loop_enumerate:
  "fst (placemark_loop F i ms points) =
     points @ List.map_filter (\<lambda>(k, m). case placemark_point F k m of Inl e \<Rightarrow> None | Inr r \<Rightarrow> r)
                (takeWhile (\<lambda>(k, m). \<not> isl (placemark_point F k m)) (enumerate i ms))"
proof (induction ms arbitrary: i points)
  case Nil
  show ?case by simp
next
  case (Cons x xs)
  show ?case
  proof (cases "placemark_point F i x")
    case (Inl e)
    then show ?thesis by simp
  next
    case (Inr r)
    then show ?thesis
      by (cases r) (simp_all add: Cons.IH)
  qed
qed

lemma short_marker_no_point:
  "fewer_than_two_components m \<Longrightarrow> placemark_point F i m = Inr None"
  by (simp add: placemark_point_def fewer_than_two_no_point)

lemma unnamed_marker_name:
  assumes "has_no_name m" and "placemark_point F i m = Inr (Some p)"
  shows "pd_name p = ''Point_'' @ str_nat (i + 1)"
proof -
  from assms(1) have "text_or d (find_kml ''name'' m) = d" for d
    by (auto simp: has_no_name_def text_or_def split: option.splits)
  with assms(2) show ?thesis
    by (auto simp: placemark_point_def Let_def split: sum.splits option.splits)
qed

lemma unusable_number_raises:
  assumes "unusable_number F m"
  shows "placemark_point F i m = Inl ValueError"
proof -
  from assms obtain ce t where ce: "find_kml ''coordinates'' m = Some ce"
    and t: "elem_text ce = Some t"
    and len: "length (split_on CHR '','' (strip t)) \<ge> 2"
    and ex: "list_ex (\<lambda>c. float_of_str F c = None) (take 3 (split_on CHR '','' (strip t)))"
    by (auto simp: unusable_number_def Let_def split: option.splits)
  let ?cs = "split_on CHR '','' (strip t)"
  from len have ne: "t \<noteq> []" by (auto simp: strip_def)
  from ex obtain j where j: "j < length (take 3 ?cs)" and bad: "float_of_str F (take 3 ?cs ! j) = None"
    by (auto simp: list_ex_iff in_set_conv_nth)
  from j have j3: "j < 3" and jl: "j < length ?cs" by simp_all
  from bad j3 have badj: "float_of_str F (?cs ! j) = None" by simp
  from j3 have "j = 0 \<or> j = 1 \<or> j = 2" by auto
  with badj jl len have "parse_coords F t = Inl ValueError"
    by (auto simp: parse_coords_def Let_def split: option.splits)
  with ce t ne show ?thesis
    by (simp add: placemark_point_def coords_of_def)
qed

text \<open>
  C2, as the script has it.  A marker whose coordinate text has fewer than two components
  yields no record.  The ordinal of a default name is the marker's position among all the
  markers of the document, the skipped ones included: the records are those of the pairs
  (index, marker) of the enumeration up to the first exception, and an unnamed marker at
  index \<open>i\<close> is named \<^verbatim>\<open>Point_\<close> followed by \<open>i + 1\<close>.
\<close>

theorem short_marker_skipped_ordinal_counts:
  "(fewer_than_two_components m \<longrightarrow> placemark_point F i m = Inr None) \<and>
   (has_no_name m \<and> placemark_point F i m = Inr (Some p) \<longrightarrow>
      pd_name p = ''Point_'' @ str_nat (i + 1)) \<and>
   parse_all_kml_points F (Doc root) =
     List.map_filter (\<lambda>(k, m). case placemark_point F k m of Inl e \<Rightarrow> None | Inr r \<Rightarrow> r)
       (takeWhile (\<lambda>(k, m). \<not> isl (placemark_point F k m)) (enumerate 0 (find_placemarks root)))"
proof (intro conjI impI)
  assume "fewer_than_two_components m"
  then show "placemark_point F i m = Inr None" by (rule short_marker_no_point)
next
  assume "has_no_name m \<and> placemark_point F i m = Inr (Some p)"
  then show "pd_name p = ''Point_'' @ str_nat (i + 1)"
    using unnamed_marker_name by blast
next
  show "parse_all_kml_points F (Doc root) =
     List.map_filter (\<lambda>(k, m). case placemark_point F k m of Inl e \<Rightarrow> None | Inr r \<Rightarrow> r)
       (takeWhile (\<lambda>(k, m). \<not> isl (placemark_point F k m)) (enumerate 0 (find_placemarks root)))"
    using placemark_loop_enumerate [of F 0 "find_placemarks root" "[]"]
    by (simp add: parse_all_kml_points_def parse_all_kml_points_try_def)
qed

lemma point_of_short_marker: "fewer_than_two_components (marker None [] ''5'')"
  by (simp add: fewer_than_two_components_def document_simps)

lemma point_of_second_marker:
  "placemark_point whole_floats 1 (marker None [] ''1,2'') =
     Inr (Some \<lparr>pd_name = ''Point_2'', pd_coordinates = (1, 2, 0), pd_description = [],
                 pd_table_attribute = None\<rparr>)"
  by (simp add: bulk_simps whole_simps document_simps)

theorem short_marker_skipped_ordinal_counts_witness:
  "fewer_than_two_components (marker None [] ''5'') \<and>
   placemark_point whole_floats 0 (marker None [] ''5'') = Inr None \<and>
   has_no_name (marker None [] ''1,2'') \<and>
   placemark_point whole_floats 1 (marker None [] ''1,2'') =
     Inr (Some \<lparr>pd_name = ''Point_2'', pd_coordinates = (1, 2, 0), pd_description = [],
                 pd_table_attribute = None\<rparr>) \<and>
   pd_name \<lparr>pd_name = ''Point_2'', pd_coordinates = (1, 2, 0 :: int), pd_description = [],
            pd_table_attribute = None\<rparr> = ''Point_'' @ str_nat (1 + 1)"
proof (intro conjI)
  show "fewer_than_two_components (marker None [] ''5'')"
    by (rule point_of_short_marker)
  show "placemark_point whole_floats 0 (marker None [] ''5'') = Inr None"
    using short_marker_skipped_ordinal_counts [of "marker None [] ''5''" whole_floats 0]
      point_of_short_marker
    by blast
  show n: "has_no_name (marker None [] ''1,2'')"
    by (simp add: has_no_name_def document_simps)
  show "placemark_point whole_floats 1 (marker None [] ''1,2'') =
     Inr (Some \<lparr>pd_name = ''Point_2'', pd_coordinates = (1, 2, 0), pd_description = [],
                 pd_table_attribute = None\<rparr>)"
    by (rule point_of_second_marker)
  show "pd_name \<lparr>pd_name = ''Point_2'', pd_coordinates = (1, 2, 0 :: int), pd_description = [],
            pd_table_attribute = None\<rparr> = ''Point_'' @ str_nat (1 + 1)"
    using short_marker_skipped_ordinal_counts
      [of "marker None [] ''1,2''" whole_floats 1
          "\<lparr>pd_name = ''Point_2'', pd_coordinates = (1, 2, 0), pd_description = [],
            pd_table_attribute = None\<rparr>"]
      n point_of_second_marker
    by blast
qed

text \<open>
  C2, as the claim words it, fails: the unnamed marker that follows a one-component marker
  is named \<^verbatim>\<open>Point_2\<close>; without the one-component marker before it, the same marker
  is named \<^verbatim>\<open>Point_1\<close>.
\<close>

theorem skipped_marker_ordinal_counterexample:
  "fewer_than_two_components (marker None [] ''5'') \<and>
   map pd_name (parse_all_kml_points whole_floats
     (Doc (kml_root [marker None [] ''5'', marker None [] ''1,2'']))) = [''Point_2''] \<and>
   map pd_name (parse_all_kml_points whole_floats
     (Doc (kml_root [marker None [] ''1,2'']))) = [''Point_1'']"
  by (simp add: fewer_than_two_components_def bulk_simps whole_simps document_simps)

text \<open>
  C10, as the script has it.  When a marker has at least two coordinate components and one
  of the first three is not a number, the conversion raises inside the loop and the handler
  of \<^verbatim>\<open>parse_all_kml_points\<close> catches it: the function returns the records of the
  markers before that one, and nothing of that marker or of those after it.
\<close>

theorem extraction_stops_at_unusable_number:
  assumes "find_placemarks root = before @ m # after" and "unusable_number F m"
  shows "parse_all_kml_points F (Doc root) = fst (placemark_loop F 0 before []) \<and>
         (\<exists>e. snd (parse_all_kml_points_try F (Doc root)) = Some e)"
proof -
  have m: "placemark_point F (length before) m = Inl ValueError"
    using assms(2) by (rule unusable_number_raises)
  obtain points err where b: "placemark_loop F 0 before [] = (points, err)"
    by (cases "placemark_loop F 0 before []")
  have "placemark_loop F 0 (before @ m # after) [] = (points, Some (case err of None \<Rightarrow> ValueError | Some e \<Rightarrow> e))"
    using b m by (cases err) (simp_all add: placemark_loop_append)
  with assms(1) b show ?thesis
    by (simp add: parse_all_kml_points_def parse_all_kml_points_try_def)
qed

theorem extraction_stops_at_unusable_number_witness:
  "find_placemarks (kml_root [marker None [] ''1,2'', marker None [] ''3,x'', marker None [] ''5,6''])
     = [marker None [] ''1,2''] @ marker None [] ''3,x'' # [marker None [] ''5,6''] \<and>
   unusable_number whole_floats (marker None [] ''3,x'') \<and>
   parse_all_kml_points whole_floats
     (Doc (kml_root [marker None [] ''1,2'', marker None [] ''3,x'', marker None [] ''5,6'']))
     = [\<lparr>pd_name = ''Point_1'', pd_coordinates = (1, 2, 0), pd_description = [],
         pd_table_attribute = None\<rparr>]"
proof (intro conjI)
  show f: "find_placemarks (kml_root [marker None [] ''1,2'', marker None [] ''3,x'', marker None [] ''5,6''])
     = [marker None [] ''1,2''] @ marker None [] ''3,x'' # [marker None [] ''5,6'']"
    by (simp add: document_simps)
  show u: "unusable_number whole_floats (marker None [] ''3,x'')"
    by (simp add: unusable_number_def whole_simps document_simps)
  have "fst (placemark_loop whole_floats 0 [marker None [] ''1,2''] []) =
      [\<lparr>pd_name = ''Point_1'', pd_coordinates = (1, 2, 0), pd_description = [],
        pd_table_attribute = None\<rparr>]"
    by (simp add: bulk_simps whole_simps document_simps)
  with extraction_stops_at_unusable_number [OF f u]
  show "parse_all_kml_points whole_floats
     (Doc (kml_root [marker None [] ''1,2'', marker None [] ''3,x'', marker None [] ''5,6'']))
     = [\<lparr>pd_name = ''Point_1'', pd_coordinates = (1, 2, 0), pd_description = [],
         pd_table_attribute = None\<rparr>]"
    by simp
qed

text \<open>
  C10, as the claim words it, fails: a marker whose whole coordinate text is \<^verbatim>\<open>abc\<close>
  has a component that is not a number, and so has a marker whose fourth component is
  \<^verbatim>\<open>x\<close>; extraction goes on past both, and the marker after them is returned.
\<close>

theorem non_numeric_component_counterexample:
  "non_numeric_component whole_floats (marker None [] ''abc'') \<and>
   non_numeric_component whole_floats (marker None [] ''1,2,3,x'') \<and>
   map pd_name (parse_all_kml_points whole_floats
     (Doc (kml_root [marker None [] ''abc'', marker None [] ''1,2,3,x'', marker None [] ''5,6''])))
     = [''Point_2'', ''Point_3'']"
  by (simp add: non_numeric_component_def bulk_simps whole_simps document_simps)

section \<open>Properties of the file names\<close>

subsection \<open>The sequence number\<close>

lemma of_char_digit_char: "d < 10 \<Longrightarrow> of_char (digit_char d) = (48 + d :: nat)"
proof -
  assume "d < 10"
  then have "d \<in> {0, 1, 2, 3, 4, 5, 6, 7, 8, 9}" by auto
  then show ?thesis by (auto simp: digit_char_def)
qed

lemma digits_value_append:
  "digits_value acc (xs @ ys) =
     (case digits_value acc xs of None \<Rightarrow> None | Some v \<Rightarrow> digits_value v ys)"
  by (induction xs arbitrary: acc) (simp_all add: Let_def)

lemma digits_value_digit: "d < 10 \<Longrightarrow> digits_value acc [digit_char d] = Some (10 * acc + d)"
  by (simp add: of_char_digit_char Let_def)

lemma digits_value_str_nat: "digits_value 0 (str_nat n) = Some n"
proof (induction n rule: str_nat.induct)
  case (1 n)
  show ?case
  proof (cases "n < 10")
    case True
    then show ?thesis
      by (subst str_nat.simps) (simp add: digits_value_digit del: digits_value.simps)
  next
    case False
    with 1 have "digits_value 0 (str_nat (n div 10)) = Some (n div 10)" by simp
    with False show ?thesis
      by (subst str_nat.simps)
        (simp add: digits_value_append digits_value_digit del: digits_value.simps)
  qed
qed

lemma digits_value_zeros: "digits_value 0 (replicate k CHR ''0'' @ s) = digits_value 0 s"
  by (induction k) simp_all

lemma digits_value_format_03d: "digits_value 0 (format_03d i) = Some i"
  by (simp add: format_03d_def digits_value_zeros digits_value_str_nat)

lemma length_str_nat_pos: "0 < length (str_nat n)"
  by (subst str_nat.simps) simp



lemma str_nat_digits: "list_all is_digit (str_nat n)"
proof (induction n rule: str_nat.induct)
  case (1 n)
  show ?case
  proof (cases "n < 10")
    case True
    then show ?thesis
      by (subst str_nat.simps) (simp add: is_digit_def of_char_digit_char)
  next
    case False
    with 1 have "list_all is_digit (str_nat (n div 10))" by simp
    with False show ?thesis
      by (subst str_nat.simps) (simp add: is_digit_def of_char_digit_char)
  qed
qed

lemma format_03d_digits: "list_all is_digit (format_03d i)"
  using str_nat_digits [of i] by (auto simp: format_03d_def list_all_iff is_digit_def)

text \<open>The file name is the sequence number followed by a part that starts with
  an underscore or a dot.\<close>

lemma output_filename_form:
  "output_filename i a =
     format_03d i @
     (case a of
        None \<Rightarrow> ''.kml''
      | Some l \<Rightarrow> if l = [] then ''.kml'' else ''_'' @ clean_name l @ ''.kml'')"
  by (simp add: output_filename_def Let_def split: option.splits)

lemma takeWhile_digits_prefix:
  assumes "list_all is_digit ds" and "\<not> is_digit c"
  shows "takeWhile is_digit (ds @ c # rest) = ds"
  using assms by (simp add: takeWhile_append list_all_iff)

lemma output_filename_number:
  "takeWhile is_digit (output_filename i a) = format_03d i"
proof -
  have "\<exists>c rest. \<not> is_digit c \<and> output_filename i a = format_03d i @ c # rest"
    by (auto simp: output_filename_form is_digit_def split: option.splits)
  then show ?thesis
    using takeWhile_digits_prefix [OF format_03d_digits] by auto
qed

lemma output_filename_inj:
  assumes "output_filename i a = output_filename j b"
  shows "i = j"
proof -
  from assms have "format_03d i = format_03d j"
    using output_filename_number [of i a] output_filename_number [of j b] by simp
  then have "digits_value 0 (format_03d i) = digits_value 0 (format_03d j)" by simp
  then show ?thesis by (simp add: digits_value_format_03d)
qed

subsection \<open>The labels of a run\<close>





subsection \<open>The writes of a run\<close>

lemma write_missions_names:
  "map fst (write_missions F base_point i ds) =
     map (\<lambda>(k, d). output_filename k (dp_table_attribute d)) (enumerate i ds)"
  by (induction ds arbitrary: i) simp_all

lemma process_all_points_writes:
  assumes "get_base_point F env = Inr base_point"
  shows "snd (process_all_points F env) = write_missions F base_point 1 (get_destination_points F env)"
  using assms by (simp add: process_all_points_def Let_def)

lemma write_missions_index:
  "n \<in> set (map fst (write_missions F base_point i ds)) \<Longrightarrow>
     \<exists>k a. i \<le> k \<and> n = output_filename k a"
proof (induction ds arbitrary: i)
  case Nil
  then show ?case by simp
next
  case (Cons d ds)
  show ?case
  proof (cases "n = output_filename i (dp_table_attribute d)")
    case True
    then show ?thesis by blast
  next
    case False
    with Cons.prems have "n \<in> set (map fst (write_missions F base_point (i + 1) ds))"
      by simp
    then obtain k a where "i + 1 \<le> k" and "n = output_filename k a"
      using Cons.IH by blast
    then have "i \<le> k \<and> n = output_filename k a" by simp
    then show ?thesis by blast
  qed
qed

lemma write_missions_distinct: "distinct (map fst (write_missions F base_point i ds))"
proof (induction ds arbitrary: i)
  case Nil
  show ?case by simp
next
  case (Cons d ds)
  have "output_filename i (dp_table_attribute d) \<notin> set (map fst (write_missions F base_point (i + 1) ds))"
  proof
    assume "output_filename i (dp_table_attribute d) \<in> set (map fst (write_missions F base_point (i + 1) ds))"
    then obtain k a where k: "i + 1 \<le> k"
      and eq: "output_filename i (dp_table_attribute d) = output_filename k a"
      using write_missions_index by blast
    from eq have "i = k" by (rule output_filename_inj)
    with k show False by simp
  qed
  with Cons.IH [of "i + 1"] show ?case by simp
qed

lemma files_after_other: "n \<notin> fst ` set ws \<Longrightarrow> files_after fs ws n = fs n"
  by (induction ws arbitrary: fs) (auto simp: files_after_def)

lemma files_after_distinct:
  "distinct (map fst ws) \<Longrightarrow> (n, c) \<in> set ws \<Longrightarrow> files_after fs ws n = Some c"
proof (induction ws arbitrary: fs)
  case Nil
  then show ?case by simp
next
  case (Cons w ws)
  obtain n' c' where w: "w = (n', c')" by (cases w)
  have step: "files_after fs (w # ws) = files_after (fs(n' \<mapsto> c')) ws"
    by (simp add: files_after_def w)
  show ?case
  proof (cases "(n, c) = w")
    case True
    with w have nc: "n' = n" "c' = c" by simp_all
    from Cons.prems(1) w nc have "n \<notin> fst ` set ws" by simp
    then have "files_after (fs(n \<mapsto> c)) ws n = (fs(n \<mapsto> c)) n"
      by (rule files_after_other)
    with step nc show ?thesis by simp
  next
    case False
    with Cons.prems have "(n, c) \<in> set ws" and "distinct (map fst ws)" by simp_all
    then have "files_after (fs(n' \<mapsto> c')) ws n = Some c"
      using Cons.IH by blast
    with step show ?thesis by simp
  qed
qed


lemma tower_base: "get_base_point whole_floats tower_env = Inr (1, 2, 3)"
  by (simp add: tower_env_def run_simps)

lemma tower_destinations:
  "get_destination_points whole_floats tower_env =
     [\<lparr>dp_filename = ''a'', dp_name = ''Point_1'', dp_coordinates = (9, 10, 0),
       dp_table_attribute = None, dp_kml_path = ''a.kml''\<rparr>,
      \<lparr>dp_filename = ''b'', dp_name = ''North'', dp_coordinates = (4, 5, 6),
       dp_table_attribute = Some ''Tower A'', dp_kml_path = ''b.kml''\<rparr>,
      \<lparr>dp_filename = ''b'', dp_name = ''South'', dp_coordinates = (7, 8, 0),
       dp_table_attribute = Some ''Tower_A'', dp_kml_path = ''b.kml''\<rparr>]"
  by (simp add: tower_env_def run_simps)

lemma format_03d_examples:
  "format_03d (Suc 0) = ''001''" "format_03d (Suc (Suc 0)) = ''002''"
  "format_03d (Suc (Suc (Suc 0))) = ''003''" "format_03d 2 = ''002''" "format_03d 3 = ''003''"
  by (simp_all add: format_03d_def str_nat.simps digit_char_def numeral_2_eq_2 numeral_3_eq_3)

lemma clean_name_towers: "clean_name ''Tower A'' = ''Tower_A''" "clean_name ''Tower_A'' = ''Tower_A''"
  by (simp_all add: clean_name_def sub_disallowed_def strip_def is_word_def is_alnum_def is_space_def)

lemma enumerate_three: "enumerate 1 [a, b, c] = [(1, a), (2, b), (3, c)]"
  by (simp add: numeral_2_eq_2 numeral_3_eq_3)


text \<open>
  C1, as the script has it.  The file names of one run are pairwise different, whatever the
  labels are, because each starts with the sequence number of its point; so no write of a
  run replaces another, and after the run every file written holds its own content.
\<close>

theorem filenames_of_a_run_distinct:
  "distinct (map fst (snd (process_all_points F env))) \<and>
   (\<forall>(fname, content) \<in> set (snd (process_all_points F env)).
      files_after fs (snd (process_all_points F env)) fname = Some content)"
proof -
  have d: "distinct (map fst (snd (process_all_points F env)))"
    by (cases "get_base_point F env")
      (simp_all add: process_all_points_def Let_def write_missions_distinct)
  then show ?thesis
    by (auto intro: files_after_distinct)
qed

lemma tower_writes:
  "snd (process_all_points whole_floats tower_env) =
     [(''001.kml'', create_dji_mission_kml whole_floats (1, 2, 3) (9, 10, 0) ''Point_1''),
      (''002_Tower_A.kml'', create_dji_mission_kml whole_floats (1, 2, 3) (4, 5, 6) ''North''),
      (''003_Tower_A.kml'', create_dji_mission_kml whole_floats (1, 2, 3) (7, 8, 0) ''South'')]"
  by (simp add: process_all_points_writes [OF tower_base] tower_destinations output_filename_form
      format_03d_examples clean_name_towers)

theorem filenames_of_a_run_distinct_witness:
  "map fst (snd (process_all_points whole_floats tower_env))
     = [''001.kml'', ''002_Tower_A.kml'', ''003_Tower_A.kml''] \<and>
   distinct [''001.kml'', ''002_Tower_A.kml'', ''003_Tower_A.kml''] \<and>
   files_after Map.empty (snd (process_all_points whole_floats tower_env)) ''002_Tower_A.kml''
     = Some (create_dji_mission_kml whole_floats (1, 2, 3) (4, 5, 6) ''North'') \<and>
   files_after Map.empty (snd (process_all_points whole_floats tower_env)) ''003_Tower_A.kml''
     = Some (create_dji_mission_kml whole_floats (1, 2, 3) (7, 8, 0) ''South'')"
proof -
  let ?ws = "snd (process_all_points whole_floats tower_env)"
  have names: "map fst ?ws = [''001.kml'', ''002_Tower_A.kml'', ''003_Tower_A.kml'']"
    by (simp add: tower_writes)
  have dist: "distinct (map fst ?ws)"
    using filenames_of_a_run_distinct [of whole_floats tower_env Map.empty] by blast
  have "\<forall>(fname, content) \<in> set ?ws. files_after Map.empty ?ws fname = Some content"
    using filenames_of_a_run_distinct [of whole_floats tower_env Map.empty] by blast
  then have
    "\<forall>(fname, content) \<in> set
        [(''001.kml'', create_dji_mission_kml whole_floats (1, 2, 3) (9, 10, 0) ''Point_1''),
         (''002_Tower_A.kml'', create_dji_mission_kml whole_floats (1, 2, 3) (4, 5, 6) ''North''),
         (''003_Tower_A.kml'', create_dji_mission_kml whole_floats (1, 2, 3) (7, 8, 0) ''South'')].
       files_after Map.empty ?ws fname = Some content"
    by (simp only: tower_writes [symmetric])
  then have "files_after Map.empty ?ws ''002_Tower_A.kml''
       = Some (create_dji_mission_kml whole_floats (1, 2, 3) (4, 5, 6) ''North'') \<and>
     files_after Map.empty ?ws ''003_Tower_A.kml''
       = Some (create_dji_mission_kml whole_floats (1, 2, 3) (7, 8, 0) ''South'')"
    by simp
  with names dist show ?thesis by simp
qed

text \<open>
  C1, as the claim words it, fails: the second and third point of the example run have the
  labels \<^verbatim>\<open>Tower A\<close> and \<^verbatim>\<open>Tower_A\<close>, both sanitized to \<^verbatim>\<open>Tower_A\<close>, and
  their file names differ in the sequence number.
\<close>

theorem identical_labels_counterexample:
  "map dp_table_attribute (get_destination_points whole_floats tower_env)
     = [None, Some ''Tower A'', Some ''Tower_A''] \<and>
   clean_name ''Tower A'' = clean_name ''Tower_A'' \<and>
   map fst (snd (process_all_points whole_floats tower_env))
     = [''001.kml'', ''002_Tower_A.kml'', ''003_Tower_A.kml'']"
  by (simp add: process_all_points_writes [OF tower_base] write_missions_names
      tower_destinations enumerate_three output_filename_form format_03d_examples clean_name_towers)

section \<open>Properties of the rendered document\<close>

subsection \<open>Characters of a sanitized name\<close>






subsection \<open>Scanning the template\<close>









subsection \<open>The coordinate text\<close>














end
